theory Spec2Isabelle
  imports Complex_Main "HOL-Library.Multiset" "HOL-Library.AList"
begin

section \<open>Stock analysis pipeline (company\_performance.py)\<close>

text \<open>
  The program reads a CSV file of stock prices, computes a percentage return per row,
  ranks the rows, aggregates them by sector, prints a report and exports the ranked rows.

  Conventions of the embedding.
  \<^item> Python floats are modelled as exact reals: no rounding of the arithmetic, no
    \<open>inf\<close> and no \<open>nan\<close>.  The builtin \<open>float(s)\<close> is a parameter
    \<open>float :: string \<Rightarrow> real option\<close> (\<open>None\<close> is the ValueError), and
    \<open>str(x)\<close> of a float is a parameter \<open>float_str\<close> of the exporter.
  \<^item> Every raise of the source is a value of \<open>error\<close>; a function that can raise
    returns \<open>error + 'a\<close> with \<open>Inl\<close> the exception that leaves it.
  \<^item> What is printed is a list of \<open>event\<close>s, in the order of the prints.
  \<^item> The csv module is taken at the level of its rows: a file that can be read is the
    list of the field lists that \<open>csv.reader\<close> yields, and \<open>csv.DictReader\<close>
    is modelled on top of that as the library documents it.
\<close>

subsection \<open>Exceptions and text\<close>

datatype error =
    KeyError | ValueError | AttributeError | ZeroDivisionError
  | FileNotFoundError | PermissionError

text \<open>\<open>str.isspace\<close> for the code points below 256, and \<open>str.strip()\<close>.\<close>

definition is_space :: "char \<Rightarrow> bool" where
  "is_space c = ((of_char c :: nat) \<in> {9, 10, 11, 12, 13, 28, 29, 30, 31, 32, 133, 160})"

definition strip :: "string \<Rightarrow> string" where
  "strip s = rev (dropWhile is_space (rev (dropWhile is_space s)))"

subsection \<open>csv.DictReader\<close>

text \<open>
  A row of the DictReader is a dict from column name to cell; a cell is \<open>Some\<close> text,
  or \<open>None\<close> (the reader's \<open>restval\<close>) when the line had fewer fields than the
  header.  The dict is kept as the list of its bindings in the order they were made, so
  the last binding of a key is the one a lookup sees.  Fields beyond the header go
  under the key \<open>None\<close> in Python, which the program never reads; they are dropped here.
\<close>

type_synonym cell = "string option"
type_synonym py_row = "(string \<times> cell) list"

definition dict_get :: "('k \<times> 'v) list \<Rightarrow> 'k \<Rightarrow> 'v option" where
  "dict_get d k = map_of (rev d) k"

definition dict_row :: "string list \<Rightarrow> string list \<Rightarrow> py_row" where
  "dict_row fieldnames r =
     zip fieldnames (map Some r @ replicate (length fieldnames - length r) None)"

text \<open>The first line is the header; blank lines (\<open>[]\<close>) are not returned.\<close>

fun DictReader :: "string list list \<Rightarrow> py_row list" where
  "DictReader [] = []"
| "DictReader (fieldnames # rows) = map (dict_row fieldnames) (filter (\<lambda>r. r \<noteq> []) rows)"

subsection \<open>Records and printed output\<close>

text \<open>The dict of one stock; the key \<open>'Return'\<close> is absent until \<open>compute_return\<close> sets it.\<close>

record stock =
  Stock :: string
  Sector :: string
  PriceStart :: real
  PriceEnd :: real
  Return :: "real option"

text \<open>The value of one sector in the summary dict; \<open>count\<close> is named \<open>count'\<close> here.\<close>

record entry =
  total :: real
  count' :: int
  avg_return :: "real option"

type_synonym summary = "(string \<times> entry) list"

datatype event =
    Skipping_Missing_Prices py_row
  | Skipping_Invalid_Row py_row
  | File_Not_Found string
  | No_Valid_Data
  | All_Stock_Details "stock list"
  | Top_5_Stocks "stock list"
  | Sector_Summary summary
  | Best_Sector string "real option"
  | Data_Saved_To string
  | Error_Saving_To string

subsection \<open>read\_csv\_safe\<close>

text \<open>\<open>row[key]\<close>, \<open>cell.strip()\<close> and \<open>float(cell)\<close>, each with its exception.\<close>

definition getitem :: "py_row \<Rightarrow> string \<Rightarrow> error + cell" where
  "getitem row k = (case dict_get row k of None \<Rightarrow> Inl KeyError | Some v \<Rightarrow> Inr v)"

definition cell_strip :: "cell \<Rightarrow> error + string" where
  "cell_strip v = (case v of None \<Rightarrow> Inl AttributeError | Some s \<Rightarrow> Inr (strip s))"

definition py_float :: "(string \<Rightarrow> real option) \<Rightarrow> string \<Rightarrow> error + real" where
  "py_float float s = (case float s of None \<Rightarrow> Inl ValueError | Some x \<Rightarrow> Inr x)"

text \<open>\<open>not cell\<close>: true of \<open>None\<close> and of the empty text.\<close>

definition falsy :: "cell \<Rightarrow> bool" where
  "falsy v = (case v of None \<Rightarrow> True | Some s \<Rightarrow> s = [])"

text \<open>
  The body of the inner \<open>try\<close> for one row (lines 16 to 34): what it prints, and the
  stocks it appends (none or one); \<open>Inl\<close> is the exception raised inside the body.
\<close>

definition row_body ::
  "(string \<Rightarrow> real option) \<Rightarrow> py_row \<Rightarrow> error + (event list \<times> stock list)" where
  "row_body float row =
    (case getitem row ''Stock'' of Inl e \<Rightarrow> Inl e | Inr c1 \<Rightarrow>
     case cell_strip c1 of Inl e \<Rightarrow> Inl e | Inr name \<Rightarrow>
     case getitem row ''Sector'' of Inl e \<Rightarrow> Inl e | Inr c2 \<Rightarrow>
     case cell_strip c2 of Inl e \<Rightarrow> Inl e | Inr sector \<Rightarrow>
     case getitem row ''PriceStart'' of Inl e \<Rightarrow> Inl e | Inr start_price \<Rightarrow>
     case getitem row ''PriceEnd'' of Inl e \<Rightarrow> Inl e | Inr end_price \<Rightarrow>
     if falsy start_price \<or> falsy end_price then Inr ([Skipping_Missing_Prices row], [])
     else
       case py_float float (the start_price) of Inl e \<Rightarrow> Inl e | Inr start \<Rightarrow>
       case py_float float (the end_price) of Inl e \<Rightarrow> Inl e | Inr end' \<Rightarrow>
       if start > 0 \<and> end' > 0
       then Inr ([], [\<lparr>Stock = name, Sector = sector, PriceStart = start,
                       PriceEnd = end', Return = None\<rparr>])
       else Inr ([], []))"

text \<open>The inner \<open>try\<close> with its \<open>except (ValueError, KeyError)\<close>.\<close>

definition row_step ::
  "(string \<Rightarrow> real option) \<Rightarrow> py_row \<Rightarrow> error + (event list \<times> stock list)" where
  "row_step float row =
    (case row_body float row of
       Inl e \<Rightarrow> if e = ValueError \<or> e = KeyError then Inr ([Skipping_Invalid_Row row], [])
                else Inl e
     | Inr r \<Rightarrow> Inr r)"

text \<open>
  The \<open>for\<close> loop over the reader, with the output printed so far and the list
  \<open>stocks\<close> as accumulators.  An exception that leaves a row ends the loop; what was
  printed before stays printed.
\<close>

fun read_rows ::
  "(string \<Rightarrow> real option) \<Rightarrow> py_row list \<Rightarrow> event list \<Rightarrow> stock list
     \<Rightarrow> event list \<times> (error + stock list)" where
  "read_rows float [] out stocks = (out, Inr stocks)"
| "read_rows float (row # rows) out stocks =
    (case row_step float row of
       Inl e \<Rightarrow> (out, Inl e)
     | Inr (printed, new) \<Rightarrow> read_rows float rows (out @ printed) (stocks @ new))"

text \<open>
  What \<open>open(filename, 'r')\<close> finds: no such file, a file that cannot be opened for
  another reason (PermissionError stands for the OSErrors other than FileNotFoundError),
  or the rows of a readable file.
\<close>

datatype source_file = Absent | Unreadable | Contents "string list list"

definition read_csv_safe ::
  "(string \<Rightarrow> real option) \<Rightarrow> (string \<Rightarrow> source_file) \<Rightarrow> string
     \<Rightarrow> event list \<times> (error + stock list)" where
  "read_csv_safe float fs filename =
    (case fs filename of
       Absent \<Rightarrow> ([File_Not_Found filename], Inr [])
     | Unreadable \<Rightarrow> ([], Inl PermissionError)
     | Contents lines \<Rightarrow> read_rows float (DictReader lines) [] [])"

subsection \<open>compute\_return\<close>

text \<open>
  \<open>round(x, n)\<close> on exact values: to the nearest multiple of \<open>10\<^sup>-\<^sup>n\<close>, a tie
  to the even one.
\<close>

definition round_half_even :: "real \<Rightarrow> int" where
  "round_half_even x =
    (let f = \<lfloor>x\<rfloor>; d = x - of_int f
     in if d < 1 / 2 then f else if d > 1 / 2 then f + 1
        else if even f then f else f + 1)"

definition py_round :: "real \<Rightarrow> nat \<Rightarrow> real" where
  "py_round x n = of_int (round_half_even (x * 10 ^ n)) / 10 ^ n"

definition compute_return :: "stock \<Rightarrow> error + stock" where
  "compute_return stock =
    (let start = PriceStart stock; end' = PriceEnd stock
     in if start = 0 then Inl ZeroDivisionError
        else (let change = ((end' - start) / start) * 100
              in Inr (stock\<lparr>Return := Some (py_round change 2)\<rparr>)))"

text \<open>The list comprehension of the main program: \<open>[compute_return(s) for s in data]\<close>.\<close>

fun compute_each :: "stock list \<Rightarrow> error + stock list" where
  "compute_each [] = Inr []"
| "compute_each (s # data) =
    (case compute_return s of
       Inl e \<Rightarrow> Inl e
     | Inr s' \<Rightarrow> (case compute_each data of Inl e \<Rightarrow> Inl e | Inr rest \<Rightarrow> Inr (s' # rest)))"

subsection \<open>process\_all\<close>

text \<open>
  The builtin \<open>sorted(xs, key=..., reverse=...)\<close>: a stable sort by key; with
  \<open>reverse=True\<close> the list is reversed, sorted and reversed again, which is how the
  library keeps the sort stable in that direction too.
\<close>

definition sorted_py :: "('a \<Rightarrow> 'k::linorder) \<Rightarrow> bool \<Rightarrow> 'a list \<Rightarrow> 'a list" where
  "sorted_py key reverse xs =
     (if reverse then rev (sort_key key (rev xs)) else sort_key key xs)"

text \<open>The key \<open>x['Return']\<close> raises KeyError on a stock that has no return yet.\<close>

definition process_all :: "stock list \<Rightarrow> error + stock list" where
  "process_all data =
    (if list_ex (\<lambda>x. Return x = None) data then Inl KeyError
     else Inr (sorted_py (\<lambda>x. the (Return x)) True data))"

subsection \<open>aggregrate\_by\_sector\<close>

text \<open>
  The summary dict is the list of its items in insertion order.  First loop (lines 66
  to 71): a new sector is inserted at the end with total 0 and count 0, then the total
  and the count of the stock's sector are updated.
\<close>

fun fold_sectors :: "stock list \<Rightarrow> summary \<Rightarrow> error + summary" where
  "fold_sectors [] summary = Inr summary"
| "fold_sectors (s # data) summary =
    (let sector = Sector s;
         summary1 = (if map_of summary sector = None
                     then summary @ [(sector, \<lparr>total = 0, count' = 0, avg_return = None\<rparr>)]
                     else summary)
     in case Return s of
          None \<Rightarrow> Inl KeyError
        | Some r \<Rightarrow>
            fold_sectors data
              (AList.map_entry sector (\<lambda>e. e\<lparr>count' := count' e + 1\<rparr>)
                (AList.map_entry sector (\<lambda>e. e\<lparr>total := total e + r\<rparr>) summary1)))"

text \<open>Second loop (lines 73 to 75): the average of every sector; a count of 0 raises.\<close>

fun averages :: "summary \<Rightarrow> error + summary" where
  "averages [] = Inr []"
| "averages ((sec, e) # rest) =
    (if count' e = 0 then Inl ZeroDivisionError
     else (let avg = total e / of_int (count' e)
           in case averages rest of
                Inl err \<Rightarrow> Inl err
              | Inr rest' \<Rightarrow> Inr ((sec, e\<lparr>avg_return := Some (py_round avg 2)\<rparr>) # rest')))"

definition aggregrate_by_sector :: "stock list \<Rightarrow> error + summary" where
  "aggregrate_by_sector data =
    (case fold_sectors data [] of Inl e \<Rightarrow> Inl e | Inr summary \<Rightarrow> averages summary)"

subsection \<open>print\_report\<close>

text \<open>The builtin \<open>max\<close> with a key, on a first element and the rest: the first maximum wins.\<close>

fun max_by :: "('a \<Rightarrow> real) \<Rightarrow> 'a \<Rightarrow> 'a list \<Rightarrow> 'a" where
  "max_by key best [] = best"
| "max_by key best (x # xs) = max_by key (if key x > key best then x else best) xs"

text \<open>
  The report, one event per block of lines.  Reading \<open>s['Return']\<close> or
  \<open>val['avg_return']\<close> of a dict without that key raises KeyError, and \<open>max\<close> of an
  empty summary raises ValueError; the blocks printed before the raise stay printed.
\<close>

definition print_report :: "stock list \<Rightarrow> summary \<Rightarrow> event list \<times> (error + unit)" where
  "print_report data summary =
    (if list_ex (\<lambda>s. Return s = None) data then ([], Inl KeyError)
     else (let out = [All_Stock_Details data, Top_5_Stocks (take 5 data)]
           in case summary of
                [] \<Rightarrow> (out, Inl ValueError)
              | item # items \<Rightarrow>
                  if list_ex (\<lambda>x. avg_return (snd x) = None) summary then (out, Inl KeyError)
                  else (let best = max_by (\<lambda>x. the (avg_return (snd x))) item items
                        in (out @ [Sector_Summary summary,
                                   Best_Sector (fst best) (avg_return (snd best))],
                            Inr ()))))"

subsection \<open>export\_csv\<close>

text \<open>
  The clock is the parameter \<open>timestamp\<close> (the time already formatted by
  \<open>strftime\<close>), and \<open>writable\<close> says whether the file can be created and written;
  when it cannot, the OSError is caught.  The result is what is printed and the file
  written, as the rows the csv writer was given: the header and one row per stock, a float
  written by \<open>float_str\<close> and a missing \<open>'Return'\<close> as the empty text.
\<close>

definition export_csv ::
  "(real \<Rightarrow> string) \<Rightarrow> string \<Rightarrow> (string \<Rightarrow> bool) \<Rightarrow> stock list
     \<Rightarrow> event list \<times> (string \<times> string list list) option" where
  "export_csv float_str timestamp writable data =
    (let filename = ''stock_report_'' @ timestamp @ ''.csv'';
         fields = [''Stock'', ''Sector'', ''PriceStart'', ''PriceEnd'', ''Return'']
     in if writable filename
        then ([Data_Saved_To filename],
              Some (filename,
                    fields # map (\<lambda>s. [Stock s, Sector s, float_str (PriceStart s),
                                       float_str (PriceEnd s),
                                       (case Return s of None \<Rightarrow> [] | Some r \<Rightarrow> float_str r)])
                                 data))
        else ([Error_Saving_To filename], None))"

subsection \<open>The main program\<close>

text \<open>
  How the process ends: the script runs to its last line, \<open>exit()\<close> is called (exit
  status 0), or an exception is never caught (a traceback and exit status 1).
\<close>

datatype ending = Finished | Exit_0 | Traceback error

record run =
  printed :: "event list"
  ending :: ending
  files :: "string \<Rightarrow> source_file"

text \<open>\<open>line\<close> is what the user types at the prompt.\<close>

definition main ::
  "(string \<Rightarrow> real option) \<Rightarrow> (real \<Rightarrow> string) \<Rightarrow> string \<Rightarrow> (string \<Rightarrow> bool)
     \<Rightarrow> (string \<Rightarrow> source_file) \<Rightarrow> string \<Rightarrow> run" where
  "main float float_str timestamp writable fs line =
    (let filename = strip line
     in case read_csv_safe float fs filename of
          (out, Inl e) \<Rightarrow> \<lparr>printed = out, ending = Traceback e, files = fs\<rparr>
        | (out, Inr data) \<Rightarrow>
            if data = []
            then \<lparr>printed = out @ [No_Valid_Data], ending = Exit_0, files = fs\<rparr>
            else
              case compute_each data of
                Inl e \<Rightarrow> \<lparr>printed = out, ending = Traceback e, files = fs\<rparr>
              | Inr data1 \<Rightarrow>
              case process_all data1 of
                Inl e \<Rightarrow> \<lparr>printed = out, ending = Traceback e, files = fs\<rparr>
              | Inr data2 \<Rightarrow>
              case aggregrate_by_sector data2 of
                Inl e \<Rightarrow> \<lparr>printed = out, ending = Traceback e, files = fs\<rparr>
              | Inr summary \<Rightarrow>
              case print_report data2 summary of
                (out2, Inl e) \<Rightarrow> \<lparr>printed = out @ out2, ending = Traceback e, files = fs\<rparr>
              | (out2, Inr u) \<Rightarrow>
              case export_csv float_str timestamp writable data2 of
                (out3, None) \<Rightarrow>
                  \<lparr>printed = out @ out2 @ out3, ending = Finished, files = fs\<rparr>
              | (out3, Some (name, rows)) \<Rightarrow>
                  \<lparr>printed = out @ out2 @ out3, ending = Finished,
                   files = fs(name := Contents rows)\<rparr>)"

subsection \<open>The stocks as objects\<close>




subsection \<open>The loader, in the words of the specification\<close>

text \<open>
  A column is present in a row when the row has the key; a price is the number its
  cell holds when the cell is a non-empty text that parses.
\<close>

definition has_column :: "py_row \<Rightarrow> string \<Rightarrow> bool" where
  "has_column row k = (dict_get row k \<noteq> None)"

definition no_cell :: "py_row \<Rightarrow> string \<Rightarrow> bool" where
  "no_cell row k = (dict_get row k = Some None)"

text \<open>
  The rows on which a call of \<open>strip\<close> finds \<open>None\<close>: the Stock cell is
  \<open>None\<close>, or the Stock column is there and the Sector cell is \<open>None\<close>.
\<close>

definition strip_raises :: "py_row \<Rightarrow> bool" where
  "strip_raises row =
    (no_cell row ''Stock'' \<or> (has_column row ''Stock'' \<and> no_cell row ''Sector''))"

definition price :: "(string \<Rightarrow> real option) \<Rightarrow> py_row \<Rightarrow> string \<Rightarrow> real option" where
  "price float row k =
    (case dict_get row k of
       Some (Some s) \<Rightarrow> if s = [] then None else float s
     | _ \<Rightarrow> None)"

definition prices_valid :: "(string \<Rightarrow> real option) \<Rightarrow> py_row \<Rightarrow> bool" where
  "prices_valid float row =
    (case (price float row ''PriceStart'', price float row ''PriceEnd'') of
       (Some x, Some y) \<Rightarrow> 0 < x \<and> 0 < y
     | _ \<Rightarrow> False)"

definition valid_row :: "(string \<Rightarrow> real option) \<Rightarrow> py_row \<Rightarrow> bool" where
  "valid_row float row =
    (has_column row ''Stock'' \<and> has_column row ''Sector'' \<and> prices_valid float row)"

definition text_of :: "py_row \<Rightarrow> string \<Rightarrow> string" where
  "text_of row k = (case dict_get row k of Some (Some s) \<Rightarrow> s | _ \<Rightarrow> [])"

definition record_of :: "(string \<Rightarrow> real option) \<Rightarrow> py_row \<Rightarrow> stock" where
  "record_of float row =
    \<lparr>Stock = strip (text_of row ''Stock''), Sector = strip (text_of row ''Sector''),
     PriceStart = the (price float row ''PriceStart''),
     PriceEnd = the (price float row ''PriceEnd''), Return = None\<rparr>"

text \<open>
  The diagnostic of a row: a missing column or a price that does not parse is an invalid
  row, an absent or empty price is a row with missing prices, and a row rejected for a
  price that is not positive prints nothing.
\<close>

definition diagnostic :: "(string \<Rightarrow> real option) \<Rightarrow> py_row \<Rightarrow> event list" where
  "diagnostic float row =
    (if \<not> has_column row ''Stock'' \<or> \<not> has_column row ''Sector''
        \<or> \<not> has_column row ''PriceStart'' \<or> \<not> has_column row ''PriceEnd''
     then [Skipping_Invalid_Row row]
     else if falsy (the (dict_get row ''PriceStart'')) \<or> falsy (the (dict_get row ''PriceEnd''))
     then [Skipping_Missing_Prices row]
     else if price float row ''PriceStart'' = None \<or> price float row ''PriceEnd'' = None
     then [Skipping_Invalid_Row row]
     else [])"

text \<open>
  What holds of every stock the loader appends: positive prices, no return yet, and a
  name and a sector that \<open>strip\<close> has trimmed.
\<close>

definition loaded :: "stock \<Rightarrow> bool" where
  "loaded s = (0 < PriceStart s \<and> 0 < PriceEnd s \<and> Return s = None
     \<and> strip (Stock s) = Stock s \<and> strip (Sector s) = Sector s)"

text \<open>
  The entry of a sector in a summary, or the entry a new sector starts with when the
  summary has none for it.
\<close>

definition tally :: "summary \<Rightarrow> string \<Rightarrow> entry" where
  "tally sm c =
    (case map_of sm c of
       None \<Rightarrow> \<lparr>total = 0, count' = 0, avg_return = None\<rparr>
     | Some e \<Rightarrow> e)"

text \<open>The return percentage: \<open>(end - start) / start * 100\<close>, rounded to 2 decimals.\<close>

definition return_pct :: "stock \<Rightarrow> real" where
  "return_pct s = py_round (((PriceEnd s - PriceStart s) / PriceStart s) * 100) 2"

text \<open>What holds of every stock that is ranked and exported.\<close>

definition ranked_ok :: "stock \<Rightarrow> bool" where
  "ranked_ok s = (0 < PriceStart s \<and> 0 < PriceEnd s \<and> Return s = Some (return_pct s)
     \<and> strip (Stock s) = Stock s \<and> strip (Sector s) = Sector s)"

subsection \<open>Example inputs\<close>

text \<open>
  \<open>float\<close> and \<open>str\<close> on the texts and numbers of the examples below; every other
  text stands for one that \<open>float\<close> rejects.
\<close>

definition float_ex :: "string \<Rightarrow> real option" where
  "float_ex s =
     map_of [(''100'', 100), (''110'', 110), (''50'', 50), (''45'', 45), (''80'', 80),
             (''0'', 0), (''-5'', - 5),
             (''100.0'', 100), (''110.0'', 110), (''50.0'', 50), (''45.0'', 45)] s"

definition str_ex :: "real \<Rightarrow> string" where
  "str_ex x =
     (if x = 100 then ''100.0'' else if x = 110 then ''110.0''
      else if x = 50 then ''50.0'' else if x = 45 then ''45.0''
      else if x = 10 then ''10.0'' else if x = - 10 then ''-10.0'' else ''nan'')"

definition header_ex :: "string list" where
  "header_ex = [''Stock'', ''Sector'', ''PriceStart'', ''PriceEnd'']"

text \<open>
  Directories: one in which every name opens a file with the given rows, one without any
  file, and the permission to write every file.
\<close>

definition only_file :: "string list list \<Rightarrow> string \<Rightarrow> source_file" where
  "only_file rows f = Contents rows"

definition no_file :: "string \<Rightarrow> source_file" where
  "no_file f = Absent"

definition can_write :: "string \<Rightarrow> bool" where
  "can_write f = True"

text \<open>Scenario A of the specification, and the stocks it loads.\<close>

definition lines_A :: "string list list" where
  "lines_A = [header_ex,
              [''AAA'', ''Tech'', ''100'', ''110''],
              [''BBB'', ''Health'', ''50'', ''45''],
              [''CCC'', ''Tech'', [], ''80'']]"

definition stock_AAA :: stock where
  "stock_AAA = \<lparr>Stock = ''AAA'', Sector = ''Tech'', PriceStart = 100, PriceEnd = 110,
                Return = None\<rparr>"

definition stock_BBB :: stock where
  "stock_BBB = \<lparr>Stock = ''BBB'', Sector = ''Health'', PriceStart = 50, PriceEnd = 45,
                Return = None\<rparr>"

text \<open>More stocks, and the stocks with the returns \<open>compute_return\<close> gives them.\<close>

definition stock_DDD :: stock where
  "stock_DDD = \<lparr>Stock = ''DDD'', Sector = ''Tech'', PriceStart = 100, PriceEnd = 80,
                Return = None\<rparr>"

definition stock_EEE :: stock where
  "stock_EEE = \<lparr>Stock = ''EEE'', Sector = ''tech'', PriceStart = 50, PriceEnd = 55,
                Return = None\<rparr>"

definition computed_AAA :: stock where
  "computed_AAA = stock_AAA\<lparr>Return := Some 10\<rparr>"

definition computed_BBB :: stock where
  "computed_BBB = stock_BBB\<lparr>Return := Some (- 10)\<rparr>"

definition computed_DDD :: stock where
  "computed_DDD = stock_DDD\<lparr>Return := Some (- 20)\<rparr>"

definition computed_EEE :: stock where
  "computed_EEE = stock_EEE\<lparr>Return := Some 10\<rparr>"


text \<open>The file the exporter writes for Scenario A.\<close>

definition exported_A :: "string list list" where
  "exported_A = [[''Stock'', ''Sector'', ''PriceStart'', ''PriceEnd'', ''Return''],
                 [''AAA'', ''Tech'', ''100.0'', ''110.0'', ''10.0''],
                 [''BBB'', ''Health'', ''50.0'', ''45.0'', ''-10.0'']]"

text \<open>A file whose second line has one field only, and a file without the Stock column.\<close>

definition lines_short :: "string list list" where
  "lines_short = [header_ex, [''AAA'']]"

definition lines_no_stock :: "string list list" where
  "lines_no_stock = [[''Sector'', ''PriceStart'', ''PriceEnd''], [''Tech'', ''100'', ''110'']]"


section \<open>Evaluation of the examples\<close>

lemmas ex_defs = stock_AAA_def stock_BBB_def stock_DDD_def stock_EEE_def
  computed_AAA_def computed_BBB_def computed_DDD_def computed_EEE_def

lemmas load_defs = read_csv_safe_def only_file_def header_ex_def dict_row_def row_step_def
      row_body_def getitem_def dict_get_def cell_strip_def strip_def is_space_def
      py_float_def float_ex_def falsy_def

section \<open>The loader\<close>

subsection \<open>strip\<close>

lemma dropWhile_strip_aux:
  "xs \<noteq> [] \<Longrightarrow> \<not> P (hd xs) \<Longrightarrow>
   rev (dropWhile P (rev xs)) \<noteq> [] \<and> hd (rev (dropWhile P (rev xs))) = hd xs"
proof -
  assume ne: "xs \<noteq> []" and h: "\<not> P (hd xs)"
  then obtain x ys where xs: "xs = x # ys" by (cases xs) auto
  with h have nx: "\<not> P x" by simp
  have "dropWhile P (rev ys @ [x]) = dropWhile P (rev ys) @ [x]"
    using nx by (simp add: dropWhile_append)
  then show ?thesis using xs by simp
qed

lemma strip_strip: "strip (strip s) = strip s"
proof -
  let ?t = "dropWhile is_space s"
  have "dropWhile is_space (rev (dropWhile is_space (rev ?t))) = rev (dropWhile is_space (rev ?t))"
  proof (cases "?t = []")
    case True show ?thesis unfolding True by simp
  next
    case False
    then have h: "\<not> is_space (hd ?t)" by (rule hd_dropWhile)
    from dropWhile_strip_aux[where xs="dropWhile is_space s" and P=is_space, OF False h]
    have "rev (dropWhile is_space (rev ?t)) \<noteq> []"
      and "\<not> is_space (hd (rev (dropWhile is_space (rev ?t))))" using h by simp_all
    then show ?thesis by (cases "rev (dropWhile is_space (rev ?t))") simp_all
  qed
  then show ?thesis
    by (simp add: strip_def)
qed

subsection \<open>One row\<close>

lemma row_body_loaded:
  "row_body float row = Inr (pr, new) \<Longrightarrow> s \<in> set new \<Longrightarrow> loaded s"
  unfolding row_body_def getitem_def cell_strip_def py_float_def
  apply (simp split: option.splits if_splits)
  apply (auto simp: loaded_def strip_strip)
  done

lemma row_step_loaded:
  "row_step float row = Inr (pr, new) \<Longrightarrow> s \<in> set new \<Longrightarrow> loaded s"
  unfolding row_step_def
  by (cases "row_body float row") (auto split: if_splits dest: row_body_loaded)

lemma row_body_spec:
  "dict_get row ''Stock'' \<noteq> Some None \<Longrightarrow> dict_get row ''Sector'' \<noteq> Some None \<Longrightarrow>
   row_body float row =
    (if \<not> has_column row ''Stock'' \<or> \<not> has_column row ''Sector''
        \<or> \<not> has_column row ''PriceStart'' \<or> \<not> has_column row ''PriceEnd''
     then Inl KeyError
     else if falsy (the (dict_get row ''PriceStart'')) \<or> falsy (the (dict_get row ''PriceEnd''))
     then Inr ([Skipping_Missing_Prices row], [])
     else if price float row ''PriceStart'' = None \<or> price float row ''PriceEnd'' = None
     then Inl ValueError
     else Inr ([], if valid_row float row then [record_of float row] else []))"
  unfolding row_body_def getitem_def cell_strip_def py_float_def has_column_def price_def
    valid_row_def prices_valid_def record_of_def text_of_def falsy_def
  by (simp split: option.split)

lemma price_SomeD:
  "price float row k = Some x \<Longrightarrow>
   has_column row k \<and> \<not> falsy (the (dict_get row k))"
  by (simp add: price_def has_column_def falsy_def split: option.splits if_splits)

lemma valid_rowD:
  assumes "valid_row float row"
  shows "has_column row ''Stock''" "has_column row ''Sector''"
    "has_column row ''PriceStart''" "has_column row ''PriceEnd''"
    "\<not> falsy (the (dict_get row ''PriceStart''))" "\<not> falsy (the (dict_get row ''PriceEnd''))"
    "price float row ''PriceStart'' \<noteq> None" "price float row ''PriceEnd'' \<noteq> None"
proof -
  from assms obtain x y where
    "has_column row ''Stock''" "has_column row ''Sector''"
    "price float row ''PriceStart'' = Some x" "price float row ''PriceEnd'' = Some y"
    by (auto simp: valid_row_def prices_valid_def split: option.splits)
  then show "has_column row ''Stock''" "has_column row ''Sector''"
    "has_column row ''PriceStart''" "has_column row ''PriceEnd''"
    "\<not> falsy (the (dict_get row ''PriceStart''))" "\<not> falsy (the (dict_get row ''PriceEnd''))"
    "price float row ''PriceStart'' \<noteq> None" "price float row ''PriceEnd'' \<noteq> None"
    using price_SomeD[of float row "''PriceStart''" x] price_SomeD[of float row "''PriceEnd''" y]
    by simp_all
qed

lemma row_body_no_stock:
  "\<not> has_column row ''Stock'' \<Longrightarrow> row_body float row = Inl KeyError"
  by (simp add: row_body_def getitem_def has_column_def)

lemma row_step_raises: "strip_raises row \<Longrightarrow> row_step float row = Inl AttributeError"
  unfolding strip_raises_def no_cell_def has_column_def row_step_def row_body_def getitem_def
    cell_strip_def
  by (auto split: option.split)

lemma row_step_spec:
  assumes "\<not> strip_raises row"
  shows "row_step float row =
     Inr (diagnostic float row, if valid_row float row then [record_of float row] else [])"
proof -
  have b: "row_body float row =
    (if \<not> has_column row ''Stock'' \<or> \<not> has_column row ''Sector''
        \<or> \<not> has_column row ''PriceStart'' \<or> \<not> has_column row ''PriceEnd''
     then Inl KeyError
     else if falsy (the (dict_get row ''PriceStart'')) \<or> falsy (the (dict_get row ''PriceEnd''))
     then Inr ([Skipping_Missing_Prices row], [])
     else if price float row ''PriceStart'' = None \<or> price float row ''PriceEnd'' = None
     then Inl ValueError
     else Inr ([], if valid_row float row then [record_of float row] else []))"
  proof (cases "has_column row ''Stock''")
    case True
    with assms have "dict_get row ''Stock'' \<noteq> Some None" "dict_get row ''Sector'' \<noteq> Some None"
      by (simp_all add: strip_raises_def no_cell_def)
    then show ?thesis by (rule row_body_spec)
  next
    case False
    then show ?thesis by (simp add: row_body_no_stock)
  qed
  show ?thesis
  proof (cases "valid_row float row")
    case True
    from valid_rowD[OF True] show ?thesis
      by (simp add: row_step_def b diagnostic_def True)
  next
    case False
    then show ?thesis
      by (simp add: row_step_def b diagnostic_def)
  qed
qed

subsection \<open>The loop over the rows\<close>

lemma read_rows_spec:
  "\<forall>row\<in>set rows. \<not> strip_raises row \<Longrightarrow>
   read_rows float rows out stocks =
     (out @ concat (map (diagnostic float) rows),
      Inr (stocks @ map (record_of float) (filter (valid_row float) rows)))"
proof (induction rows arbitrary: out stocks)
  case Nil
  then show ?case by simp
next
  case (Cons row rows)
  then show ?case by (simp add: row_step_spec)
qed

lemma read_rows_raises:
  "\<exists>row\<in>set rows. strip_raises row \<Longrightarrow>
   \<exists>out'. read_rows float rows out stocks = (out', Inl AttributeError)"
proof (induction rows arbitrary: out stocks)
  case Nil
  then show ?case by simp
next
  case (Cons row rows)
  show ?case
  proof (cases "strip_raises row")
    case True
    then show ?thesis by (simp add: row_step_raises)
  next
    case False
    with Cons.prems have "\<exists>row\<in>set rows. strip_raises row" by simp
    from Cons.IH[OF this] show ?thesis by (simp add: row_step_spec[OF False])
  qed
qed

lemma read_rows_loaded:
  "read_rows float rows out stocks = (out', Inr ss) \<Longrightarrow>
   \<forall>s\<in>set stocks. loaded s \<Longrightarrow> \<forall>s\<in>set ss. loaded s"
proof (induction rows arbitrary: out stocks)
  case Nil
  then show ?case by simp
next
  case (Cons row rows)
  show ?case
  proof (cases "row_step float row")
    case (Inl e)
    with Cons.prems show ?thesis by simp
  next
    case (Inr r)
    obtain pr new where r: "r = (pr, new)" by (cases r)
    have "\<forall>s\<in>set (stocks @ new). loaded s"
      using Cons.prems(2) row_step_loaded[of float row pr new] Inr r by auto
    moreover have "read_rows float rows (out @ pr) (stocks @ new) = (out', Inr ss)"
      using Cons.prems(1) Inr r by simp
    ultimately show ?thesis by (rule Cons.IH[rotated])
  qed
qed

lemma read_csv_safe_loaded:
  "read_csv_safe float fs filename = (out, Inr data) \<Longrightarrow> s \<in> set data \<Longrightarrow> loaded s"
  unfolding read_csv_safe_def
  by (cases "fs filename") (auto dest: read_rows_loaded)


subsection \<open>Scenario A\<close>

lemma load_A:
  "read_csv_safe float_ex (only_file lines_A) name =
     ([Skipping_Missing_Prices (dict_row header_ex [''CCC'', ''Tech'', [], ''80''])],
      Inr [stock_AAA, stock_BBB])"
  by (simp add: lines_A_def load_defs stock_AAA_def stock_BBB_def)

lemma py_round_10: "py_round 10 2 = 10" "py_round (- 10) 2 = - 10"
  by (simp_all add: py_round_def round_half_even_def)

section \<open>The return calculator\<close>



section \<open>The ranker\<close>

lemma process_all_computed:
  "\<forall>s\<in>set data. Return s \<noteq> None \<Longrightarrow>
   process_all data = Inr (rev (sort_key (\<lambda>x. the (Return x)) (rev data)))"
  by (simp add: process_all_def sorted_py_def list_ex_iff)









section \<open>The sector aggregator\<close>

lemma fold_sectors_spec:
  "\<forall>s\<in>set data. Return s \<noteq> None \<Longrightarrow> distinct (map fst sm) \<Longrightarrow>
   \<exists>sm'. fold_sectors data sm = Inr sm'
     \<and> distinct (map fst sm')
     \<and> fst ` set sm' = fst ` set sm \<union> Sector ` set data
     \<and> (\<forall>c. total (tally sm' c) =
               total (tally sm c)
                 + sum_list (map (\<lambda>s. the (Return s)) (filter (\<lambda>s. Sector s = c) data))
            \<and> count' (tally sm' c) =
               count' (tally sm c) + int (length (filter (\<lambda>s. Sector s = c) data))
            \<and> avg_return (tally sm' c) = avg_return (tally sm c))"
proof (induction data arbitrary: sm)
  case Nil
  then show ?case by simp
next
  case (Cons s data)
  obtain r where r: "Return s = Some r" using Cons.prems(1) by auto
  define sm1 where "sm1 = (if map_of sm (Sector s) = None
      then sm @ [(Sector s, \<lparr>total = 0, count' = 0, avg_return = None\<rparr>)] else sm)"
  define sm2 where "sm2 = AList.map_entry (Sector s) (\<lambda>e. e\<lparr>count' := count' e + 1\<rparr>)
                (AList.map_entry (Sector s) (\<lambda>e. e\<lparr>total := total e + r\<rparr>) sm1)"
  have step: "fold_sectors (s # data) sm = fold_sectors data sm2"
    by (simp add: r sm1_def sm2_def Let_def)
  have d1: "distinct (map fst sm1)"
    using Cons.prems(2) by (auto simp: sm1_def map_of_eq_None_iff)
  have k1: "fst ` set sm1 = insert (Sector s) (fst ` set sm)"
    by (auto simp: sm1_def map_of_eq_None_iff)
  have t1: "tally sm1 c = tally sm c" for c
    by (auto simp: sm1_def tally_def map_add_def split: option.splits if_splits)
  have in1: "map_of sm1 (Sector s) \<noteq> None"
    by (simp add: map_of_eq_None_iff k1)
  have d2: "distinct (map fst sm2)"
    unfolding sm2_def by (intro distinct_map_entry d1)
  have k2: "fst ` set sm2 = insert (Sector s) (fst ` set sm)"
    by (simp add: sm2_def dom_map_entry k1)
  have t2: "tally sm2 c =
      (if c = Sector s then (tally sm c)\<lparr>total := total (tally sm c) + r,
                                         count' := count' (tally sm c) + 1\<rparr>
       else tally sm c)" for c
  proof -
    have "tally sm2 c = (if c = Sector s then (tally sm1 c)\<lparr>total := total (tally sm1 c) + r,
                                         count' := count' (tally sm1 c) + 1\<rparr>
       else tally sm1 c)"
      using in1 by (auto simp: sm2_def tally_def map_of_map_entry split: option.splits)
    then show ?thesis by (simp add: t1)
  qed
  from Cons.IH[OF _ d2] Cons.prems(1)
  obtain sm' where res: "fold_sectors data sm2 = Inr sm'" and d: "distinct (map fst sm')"
    and k: "fst ` set sm' = fst ` set sm2 \<union> Sector ` set data"
    and t: "\<And>c. total (tally sm' c) =
               total (tally sm2 c)
                 + sum_list (map (\<lambda>s. the (Return s)) (filter (\<lambda>s. Sector s = c) data))
            \<and> count' (tally sm' c) =
               count' (tally sm2 c) + int (length (filter (\<lambda>s. Sector s = c) data))
            \<and> avg_return (tally sm' c) = avg_return (tally sm2 c)"
    by auto
  have "fst ` set sm' = fst ` set sm \<union> Sector ` set (s # data)"
    using k k2 by auto
  moreover have "total (tally sm' c) =
               total (tally sm c)
                 + sum_list (map (\<lambda>s. the (Return s)) (filter (\<lambda>s. Sector s = c) (s # data)))
            \<and> count' (tally sm' c) =
               count' (tally sm c) + int (length (filter (\<lambda>s. Sector s = c) (s # data)))
            \<and> avg_return (tally sm' c) = avg_return (tally sm c)" for c
    using t[of c] by (simp add: t2 r)
  ultimately show ?case using step res d by simp
qed

lemma averages_spec:
  "\<forall>x\<in>set sm. count' (snd x) \<noteq> 0 \<Longrightarrow>
   averages sm =
     Inr (map (\<lambda>x. (fst x, (snd x)\<lparr>avg_return :=
                  Some (py_round (total (snd x) / of_int (count' (snd x))) 2)\<rparr>)) sm)"
  by (induction sm rule: averages.induct) (simp_all add: Let_def)

lemma tally_mem:
  "distinct (map fst sm) \<Longrightarrow> (c, e) \<in> set sm \<Longrightarrow> tally sm c = e"
  by (simp add: tally_def)


lemma aggregrate_by_sector_spec:
  assumes "\<forall>s\<in>set data. Return s \<noteq> None"
  shows "\<exists>summary. aggregrate_by_sector data = Inr summary
     \<and> distinct (map fst summary)
     \<and> fst ` set summary = Sector ` set data
     \<and> (\<forall>x\<in>set summary.
          count' (snd x) = int (length (filter (\<lambda>s. Sector s = fst x) data))
        \<and> 0 < count' (snd x)
        \<and> total (snd x) =
            sum_list (map (\<lambda>s. the (Return s)) (filter (\<lambda>s. Sector s = fst x) data))
        \<and> avg_return (snd x) = Some (py_round (total (snd x) / of_int (count' (snd x))) 2))"
proof -
  from fold_sectors_spec[OF assms, of "[]"]
  obtain sm where res: "fold_sectors data [] = Inr sm" and d: "distinct (map fst sm)"
    and k: "fst ` set sm = Sector ` set data"
    and t: "\<And>c. total (tally sm c) =
                 sum_list (map (\<lambda>s. the (Return s)) (filter (\<lambda>s. Sector s = c) data))
            \<and> count' (tally sm c) = int (length (filter (\<lambda>s. Sector s = c) data))"
    by (auto simp: tally_def)
  have e: "count' e = int (length (filter (\<lambda>s. Sector s = c) data)) \<and> 0 < count' e
        \<and> total e = sum_list (map (\<lambda>s. the (Return s)) (filter (\<lambda>s. Sector s = c) data))"
    if "(c, e) \<in> set sm" for c e
  proof -
    have te: "tally sm c = e" using d that by (rule tally_mem)
    have "c \<in> Sector ` set data" using that k by force
    then have "filter (\<lambda>s. Sector s = c) data \<noteq> []"
      by (auto simp: filter_empty_conv)
    then have "0 < length (filter (\<lambda>s. Sector s = c) data)" by simp
    with t[of c] te show ?thesis by simp
  qed
  have e': "count' (snd x) = int (length (filter (\<lambda>s. Sector s = fst x) data))
        \<and> 0 < count' (snd x)
        \<and> total (snd x) =
            sum_list (map (\<lambda>s. the (Return s)) (filter (\<lambda>s. Sector s = fst x) data))"
    if "x \<in> set sm" for x
  proof -
    from that have "(fst x, snd x) \<in> set sm" by simp
    then show ?thesis by (rule e)
  qed
  then have nz: "\<forall>x\<in>set sm. count' (snd x) \<noteq> 0" by fastforce
  let ?fin = "\<lambda>x. (fst x, (snd x)\<lparr>avg_return :=
                  Some (py_round (total (snd x) / of_int (count' (snd x))) 2)\<rparr>)"
  have a: "aggregrate_by_sector data = Inr (map ?fin sm)"
    by (simp add: aggregrate_by_sector_def res averages_spec[OF nz])
  have f: "map fst (map ?fin sm) = map fst sm" by (simp add: comp_def)
  have "distinct (map fst (map ?fin sm))" using d by (simp only: f)
  moreover have "fst ` set (map ?fin sm) = Sector ` set data"
    using k by (simp add: image_image)
  moreover have "\<forall>x\<in>set (map ?fin sm).
          count' (snd x) = int (length (filter (\<lambda>s. Sector s = fst x) data))
        \<and> 0 < count' (snd x)
        \<and> total (snd x) =
            sum_list (map (\<lambda>s. the (Return s)) (filter (\<lambda>s. Sector s = fst x) data))
        \<and> avg_return (snd x) = Some (py_round (total (snd x) / of_int (count' (snd x))) 2)"
  proof
    fix y assume "y \<in> set (map ?fin sm)"
    then obtain x where x: "x \<in> set sm" and y: "y = ?fin x" by auto
    from e'[OF x] show "count' (snd y) = int (length (filter (\<lambda>s. Sector s = fst y) data))
        \<and> 0 < count' (snd y)
        \<and> total (snd y) =
            sum_list (map (\<lambda>s. the (Return s)) (filter (\<lambda>s. Sector s = fst y) data))
        \<and> avg_return (snd y) = Some (py_round (total (snd y) / of_int (count' (snd y))) 2)"
      unfolding y by auto
  qed
  ultimately show ?thesis using a by blast
qed




section \<open>What the loader admits\<close>

text \<open>
  C4, as the code has it.  For a source that can be read and in which \<open>strip\<close>
  raises on no row (no line so short that the cell of the Stock or of the Sector column
  is left \<open>None\<close>), the loader returns, in the order of the source, the records of exactly the
  rows that have the Stock and Sector columns and whose PriceStart and PriceEnd cells are
  non-empty texts that parse to numbers greater than zero.  What it prints is, row by
  row, the row's diagnostic: an invalid row for a missing column or a price that does
  not parse, missing prices for an absent or empty price, nothing for a price that is not
  positive.
\<close>

theorem read_csv_safe_rows:
  assumes "fs filename = Contents lines"
    and "\<forall>row\<in>set (DictReader lines). \<not> strip_raises row"
  shows "read_csv_safe float fs filename =
     (concat (map (diagnostic float) (DictReader lines)),
      Inr (map (record_of float) (filter (valid_row float) (DictReader lines))))"
  using assms by (simp add: read_csv_safe_def read_rows_spec)

text \<open>
  The claim as stated fails on a source without the Stock column: the prices of its row
  are non-empty, parse and are positive, and the row is skipped as invalid.
\<close>

theorem read_csv_safe_no_stock_column:
  "prices_valid float_ex (dict_row [''Sector'', ''PriceStart'', ''PriceEnd''] [''Tech'', ''100'', ''110''])
   \<and> read_csv_safe float_ex (only_file lines_no_stock) ''stocks.csv'' =
       ([Skipping_Invalid_Row
           (dict_row [''Sector'', ''PriceStart'', ''PriceEnd''] [''Tech'', ''100'', ''110''])],
        Inr [])"
  by (simp add: lines_no_stock_def prices_valid_def price_def load_defs)

theorem read_csv_safe_rows_witness:
  "(only_file lines_A) ''stocks.csv'' = Contents lines_A
   \<and> list_all (\<lambda>row. \<not> strip_raises row) (DictReader lines_A)
   \<and> read_csv_safe float_ex (only_file lines_A) ''stocks.csv'' =
     (concat (map (diagnostic float_ex) (DictReader lines_A)),
      Inr (map (record_of float_ex) (filter (valid_row float_ex) (DictReader lines_A))))
   \<and> map (record_of float_ex) (filter (valid_row float_ex) (DictReader lines_A))
       = [stock_AAA, stock_BBB]
   \<and> concat (map (diagnostic float_ex) (DictReader lines_A))
       = [Skipping_Missing_Prices (dict_row header_ex [''CCC'', ''Tech'', [], ''80''])]"
proof -
  have h: "\<forall>row\<in>set (DictReader lines_A). \<not> strip_raises row"
    by (simp add: lines_A_def strip_raises_def no_cell_def load_defs)
  have e: "(only_file lines_A) ''stocks.csv'' = Contents lines_A" by (simp add: only_file_def)
  from read_csv_safe_rows[of "only_file lines_A" "''stocks.csv''" lines_A float_ex, OF e h]
    load_A[of "''stocks.csv''"] h e
  show ?thesis by (simp add: list_all_iff)
qed




section \<open>Failures of the source\<close>

text \<open>
  A file that does not exist gives the diagnostic that names it and no stocks.  A file
  that cannot be opened for another reason is not caught: only FileNotFoundError is.
\<close>

lemma read_csv_safe_absent:
  "fs filename = Absent \<Longrightarrow> read_csv_safe float fs filename = ([File_Not_Found filename], Inr [])"
  by (simp add: read_csv_safe_def)

lemma read_csv_safe_unreadable:
  "fs filename = Unreadable \<Longrightarrow> read_csv_safe float fs filename = ([], Inl PermissionError)"
  by (simp add: read_csv_safe_def)

text \<open>On every source with a row on which \<open>strip\<close> raises, the loader raises.\<close>

lemma read_csv_safe_raises:
  "fs filename = Contents lines \<Longrightarrow> \<exists>row\<in>set (DictReader lines). strip_raises row \<Longrightarrow>
   \<exists>out. read_csv_safe float fs filename = (out, Inl AttributeError)"
  by (simp add: read_csv_safe_def read_rows_raises)

theorem read_csv_safe_raises_witness:
  "(only_file lines_short) ''stocks.csv'' = Contents lines_short
   \<and> list_ex strip_raises (DictReader lines_short)
   \<and> snd (read_csv_safe float_ex (only_file lines_short) ''stocks.csv'')
       = Inl AttributeError"
proof -
  have e: "(only_file lines_short) ''stocks.csv'' = Contents lines_short"
    by (simp add: only_file_def)
  have h: "\<exists>row\<in>set (DictReader lines_short). strip_raises row"
    by (simp add: lines_short_def strip_raises_def no_cell_def has_column_def
        header_ex_def dict_row_def dict_get_def)
  from read_csv_safe_raises[of "only_file lines_short" "''stocks.csv''" lines_short float_ex,
      OF e h] h e
  show ?thesis by (auto simp: list_ex_iff)
qed

text \<open>
  C5.  A line with fewer fields than the header leaves \<open>None\<close> in the Sector cell;
  \<open>None.strip()\<close> raises AttributeError, which neither \<open>except\<close> clause
  catches, so the exception leaves \<open>read_csv_safe\<close>.
\<close>

theorem read_csv_safe_short_row:
  "read_csv_safe float_ex (only_file lines_short) ''stocks.csv'' = ([], Inl AttributeError)"
  by (simp add: lines_short_def load_defs)

section \<open>What compute\_return touches\<close>

lemma compute_return_pct:
  "0 < PriceStart s \<Longrightarrow> compute_return s = Inr (s\<lparr>Return := Some (return_pct s)\<rparr>)"
  by (simp add: compute_return_def return_pct_def Let_def)

lemma compute_each_positive:
  "\<forall>s\<in>set xs. 0 < PriceStart s \<Longrightarrow>
   compute_each xs = Inr (map (\<lambda>s. s\<lparr>Return := Some (return_pct s)\<rparr>) xs)"
  by (induction xs) (simp_all add: compute_return_pct)


lemma return_pct_ex: "return_pct stock_AAA = 10" "return_pct stock_BBB = - 10"
  by (simp_all add: return_pct_def ex_defs py_round_10)




section \<open>Exporting and loading again\<close>

lemma process_all_set: "process_all xs = Inr ys \<Longrightarrow> set ys = set xs"
  by (auto simp: process_all_def sorted_py_def split: if_splits)

lemma loaded_ranked_ok: "loaded s \<Longrightarrow> ranked_ok (s\<lparr>Return := Some (return_pct s)\<rparr>)"
  by (simp add: loaded_def ranked_ok_def return_pct_def)

lemma pipeline_ranked_ok:
  assumes load: "read_csv_safe float fs filename = (out, Inr data0)"
    and comp: "compute_each data0 = Inr data1"
    and rank: "process_all data1 = Inr data"
  shows "\<forall>s\<in>set data. ranked_ok s"
proof -
  have l: "\<forall>s\<in>set data0. loaded s"
    using read_csv_safe_loaded[OF load] by blast
  then have "\<forall>s\<in>set data0. 0 < PriceStart s" by (simp add: loaded_def)
  from compute_each_positive[OF this] comp
  have "data1 = map (\<lambda>s. s\<lparr>Return := Some (return_pct s)\<rparr>) data0" by simp
  then have "\<forall>s\<in>set data1. ranked_ok s" using l by (simp add: loaded_ranked_ok)
  then show ?thesis using process_all_set[OF rank] by simp
qed

lemma reload_row:
  assumes "ranked_ok s"
    and "float (float_str (PriceStart s)) = Some (PriceStart s)" "float_str (PriceStart s) \<noteq> []"
    and "float (float_str (PriceEnd s)) = Some (PriceEnd s)" "float_str (PriceEnd s) \<noteq> []"
  shows "row_step float
           (dict_row [''Stock'', ''Sector'', ''PriceStart'', ''PriceEnd'', ''Return'']
              [Stock s, Sector s, float_str (PriceStart s), float_str (PriceEnd s), r])
         = Inr ([], [s\<lparr>Return := None\<rparr>])"
  using assms
  by (simp add: dict_row_def dict_get_def row_step_def row_body_def getitem_def cell_strip_def
      py_float_def falsy_def ranked_ok_def)

lemma read_rows_all_admitted:
  "\<forall>s\<in>set xs. row_step float (f s) = Inr ([], [g s]) \<Longrightarrow>
   read_rows float (map f xs) out stocks = (out, Inr (stocks @ map g xs))"
  by (induction xs arbitrary: out stocks) simp_all

lemma compute_each_reloaded:
  "\<forall>s\<in>set xs. ranked_ok s \<Longrightarrow>
   compute_each (map (\<lambda>s. s\<lparr>Return := None\<rparr>) xs) = Inr xs"
proof -
  assume a: "\<forall>s\<in>set xs. ranked_ok s"
  have "\<forall>s\<in>set (map (\<lambda>s. s\<lparr>Return := None\<rparr>) xs). 0 < PriceStart s"
    using a by (simp add: ranked_ok_def)
  from compute_each_positive[OF this]
  have "compute_each (map (\<lambda>s. s\<lparr>Return := None\<rparr>) xs)
      = Inr (map (\<lambda>s. s\<lparr>Return := Some (return_pct s)\<rparr>) xs)"
    by (simp add: comp_def return_pct_def)
  moreover have "map (\<lambda>s. s\<lparr>Return := Some (return_pct s)\<rparr>) xs = xs"
    using a by (induction xs) (simp_all add: ranked_ok_def)
  ultimately show ?thesis by simp
qed

text \<open>
  C8.  Take the stocks that the loader returned, \<open>compute_each\<close> computed and
  \<open>process_all\<close> ranked, and the file that \<open>export_csv\<close> wrote for them.  When
  \<open>float\<close> reads back every price that \<open>float_str\<close> wrote (as Python's
  \<open>float(str(x)) == x\<close>), loading the exported file prints nothing and returns stocks
  with the same names, sectors and prices in the same order, and computing their returns
  again gives exactly the exported stocks.
\<close>

theorem export_then_load:
  assumes load: "read_csv_safe float fs filename = (out, Inr data0)"
    and comp: "compute_each data0 = Inr data1"
    and rank: "process_all data1 = Inr data"
    and exp: "export_csv float_str timestamp writable data = (out', Some (name, rows))"
    and rt: "\<forall>s\<in>set data.
        float (float_str (PriceStart s)) = Some (PriceStart s) \<and> float_str (PriceStart s) \<noteq> []
      \<and> float (float_str (PriceEnd s)) = Some (PriceEnd s) \<and> float_str (PriceEnd s) \<noteq> []"
  shows "\<exists>again. read_csv_safe float (fs(name := Contents rows)) name = ([], Inr again)
     \<and> map (\<lambda>s. (Stock s, Sector s, PriceStart s, PriceEnd s)) again
         = map (\<lambda>s. (Stock s, Sector s, PriceStart s, PriceEnd s)) data
     \<and> compute_each again = Inr data"
proof -
  let ?fields = "[''Stock'', ''Sector'', ''PriceStart'', ''PriceEnd'', ''Return'']"
  let ?row = "\<lambda>s. [Stock s, Sector s, float_str (PriceStart s), float_str (PriceEnd s),
                   (case Return s of None \<Rightarrow> [] | Some r \<Rightarrow> float_str r)]"
  let ?again = "map (\<lambda>s. s\<lparr>Return := None\<rparr>) data"
  have ok: "\<forall>s\<in>set data. ranked_ok s"
    using load comp rank by (rule pipeline_ranked_ok)
  have rows: "rows = ?fields # map ?row data"
    using exp by (simp add: export_csv_def Let_def split: if_splits)
  have dr: "DictReader rows = map (\<lambda>s. dict_row ?fields (?row s)) data"
    by (simp add: rows filter_map comp_def)
  have step: "\<forall>s\<in>set data. row_step float (dict_row ?fields (?row s)) = Inr ([], [s\<lparr>Return := None\<rparr>])"
    using ok rt by (auto intro!: reload_row)
  have "read_csv_safe float (fs(name := Contents rows)) name = ([], Inr ?again)"
    using read_rows_all_admitted[OF step, of "[]" "[]"]
    by (simp add: read_csv_safe_def dr)
  moreover have "map (\<lambda>s. (Stock s, Sector s, PriceStart s, PriceEnd s)) ?again
         = map (\<lambda>s. (Stock s, Sector s, PriceStart s, PriceEnd s)) data"
    by (simp add: comp_def)
  moreover have "compute_each ?again = Inr data"
    using ok by (rule compute_each_reloaded)
  ultimately show ?thesis by blast
qed


theorem export_then_load_witness:
  "read_csv_safe float_ex (only_file lines_A) ''stocks.csv'' =
     ([Skipping_Missing_Prices (dict_row header_ex [''CCC'', ''Tech'', [], ''80''])],
      Inr [stock_AAA, stock_BBB])
   \<and> compute_each [stock_AAA, stock_BBB] = Inr [computed_AAA, computed_BBB]
   \<and> process_all [computed_AAA, computed_BBB] = Inr [computed_AAA, computed_BBB]
   \<and> export_csv str_ex ''20240101_120000'' can_write [computed_AAA, computed_BBB] =
       ([Data_Saved_To ''stock_report_20240101_120000.csv''],
        Some (''stock_report_20240101_120000.csv'', exported_A))
   \<and> float_ex (str_ex 100) = Some 100 \<and> float_ex (str_ex 110) = Some 110
   \<and> float_ex (str_ex 50) = Some 50 \<and> float_ex (str_ex 45) = Some 45
   \<and> read_csv_safe float_ex
        ((only_file lines_A)(''stock_report_20240101_120000.csv'' := Contents exported_A))
        ''stock_report_20240101_120000.csv''
       = ([], Inr [stock_AAA, stock_BBB])"
proof -
  let ?name = "''stock_report_20240101_120000.csv''"
  have load: "read_csv_safe float_ex (only_file lines_A) ''stocks.csv'' =
     ([Skipping_Missing_Prices (dict_row header_ex [''CCC'', ''Tech'', [], ''80''])],
      Inr [stock_AAA, stock_BBB])" by (rule load_A)
  have pos: "0 < PriceStart stock_AAA" "0 < PriceStart stock_BBB"
    by (simp_all add: stock_AAA_def stock_BBB_def)
  have comp: "compute_each [stock_AAA, stock_BBB] = Inr [computed_AAA, computed_BBB]"
    using pos by (simp add: compute_return_pct return_pct_ex computed_AAA_def computed_BBB_def)
  have rank: "process_all [computed_AAA, computed_BBB] = Inr [computed_AAA, computed_BBB]"
    by (simp add: process_all_def sorted_py_def ex_defs)
  have exp: "export_csv str_ex ''20240101_120000'' can_write [computed_AAA, computed_BBB] =
       ([Data_Saved_To ?name], Some (?name, exported_A))"
    by (simp add: export_csv_def exported_A_def str_ex_def ex_defs Let_def can_write_def)
  have fl: "float_ex (str_ex 100) = Some 100" "float_ex (str_ex 110) = Some 110"
      "float_ex (str_ex 50) = Some 50" "float_ex (str_ex 45) = Some 45"
    by (simp_all add: float_ex_def str_ex_def)
  have ne: "str_ex 100 \<noteq> []" "str_ex 110 \<noteq> []" "str_ex 50 \<noteq> []" "str_ex 45 \<noteq> []"
    by (simp_all add: str_ex_def)
  have rt: "\<forall>s\<in>set [computed_AAA, computed_BBB].
        float_ex (str_ex (PriceStart s)) = Some (PriceStart s) \<and> str_ex (PriceStart s) \<noteq> []
      \<and> float_ex (str_ex (PriceEnd s)) = Some (PriceEnd s) \<and> str_ex (PriceEnd s) \<noteq> []"
    using fl ne by (simp add: ex_defs)
  from export_then_load[OF load comp rank exp rt]
  obtain again where
    a: "read_csv_safe float_ex ((only_file lines_A)(?name := Contents exported_A)) ?name
          = ([], Inr again)"
    and b: "map (\<lambda>s. (Stock s, Sector s, PriceStart s, PriceEnd s)) again
         = map (\<lambda>s. (Stock s, Sector s, PriceStart s, PriceEnd s)) [computed_AAA, computed_BBB]"
    and c: "compute_each again = Inr [computed_AAA, computed_BBB]"
    by blast
  have "read_csv_safe float_ex ((only_file lines_A)(?name := Contents exported_A)) ?name
          = ([], Inr [stock_AAA, stock_BBB])"
    by (simp add: exported_A_def load_defs stock_AAA_def stock_BBB_def)
  with load comp rank exp fl show ?thesis by simp
qed

section \<open>The main program\<close>

text \<open>
  When the loader returns no stocks the program prints its diagnostic and calls
  \<open>exit()\<close>: nothing is computed, reported or written.  And \<open>exit()\<close> is
  reached in that case only.
\<close>

lemma main_no_data:
  "read_csv_safe float fs (strip line) = (out, Inr []) \<Longrightarrow>
   main float float_str timestamp writable fs line =
     \<lparr>printed = out @ [No_Valid_Data], ending = Exit_0, files = fs\<rparr>"
  by (simp add: main_def)

lemma main_Exit_0_iff:
  "ending (main float float_str timestamp writable fs line) = Exit_0
     \<longleftrightarrow> snd (read_csv_safe float fs (strip line)) = Inr []"
  by (auto simp: main_def Let_def split: prod.splits sum.splits option.splits)

text \<open>
  When the loader returns at least one stock, no later stage raises and the program runs
  to its last line, whether or not the export file can be written.
\<close>

lemma print_report_ok:
  "\<forall>s\<in>set data. Return s \<noteq> None \<Longrightarrow> summary \<noteq> [] \<Longrightarrow>
   \<forall>x\<in>set summary. avg_return (snd x) \<noteq> None \<Longrightarrow>
   \<exists>out. print_report data summary = (out, Inr ())"
  by (cases summary) (auto simp: print_report_def list_ex_iff Let_def)

lemma main_finishes:
  assumes load: "read_csv_safe float fs (strip line) = (out, Inr data)" and ne: "data \<noteq> []"
  shows "ending (main float float_str timestamp writable fs line) = Finished"
proof -
  let ?data1 = "map (\<lambda>s. s\<lparr>Return := Some (return_pct s)\<rparr>) data"
  let ?data2 = "rev (sort_key (\<lambda>x. the (Return x)) (rev ?data1))"
  have "\<forall>s\<in>set data. 0 < PriceStart s"
    using read_csv_safe_loaded[OF load] by (auto simp: loaded_def)
  then have comp: "compute_each data = Inr ?data1" by (rule compute_each_positive)
  have r1: "\<forall>s\<in>set ?data1. Return s \<noteq> None" by simp
  then have rank: "process_all ?data1 = Inr ?data2" by (rule process_all_computed)
  have r2: "\<forall>s\<in>set ?data2. Return s \<noteq> None" by simp
  from aggregrate_by_sector_spec[OF r2]
  obtain summary where agg: "aggregrate_by_sector ?data2 = Inr summary"
    and keys: "fst ` set summary = Sector ` set ?data2"
    and avg: "\<forall>x\<in>set summary. avg_return (snd x) \<noteq> None"
    by auto
  have "set ?data2 \<noteq> {}" using ne by simp
  then have "summary \<noteq> []" using keys by auto
  from print_report_ok[OF r2 this avg]
  obtain out2 where rep: "print_report ?data2 summary = (out2, Inr ())" by blast
  show ?thesis
    using load ne comp rank agg rep
    by (simp add: main_def Let_def split: prod.splits option.splits)
qed

text \<open>
  C6.  The early exit is not the only way the process ends before its last line: on the
  file with a short line the exception of the loader is never caught.
\<close>

theorem main_short_row:
  "main float_ex str_ex ''20240101_120000'' can_write (only_file lines_short) ''stocks.csv''
     = \<lparr>printed = [], ending = Traceback AttributeError, files = (only_file lines_short)\<rparr>"
  by (simp add: main_def lines_short_def load_defs)

section \<open>The scenarios of the specification\<close>

lemma stages_A:
  "compute_each [stock_AAA, stock_BBB] = Inr [computed_AAA, computed_BBB]"
  "process_all [computed_AAA, computed_BBB] = Inr [computed_AAA, computed_BBB]"
  "aggregrate_by_sector [computed_AAA, computed_BBB] =
     Inr [(''Tech'', \<lparr>total = 10, count' = 1, avg_return = Some 10\<rparr>),
          (''Health'', \<lparr>total = - 10, count' = 1, avg_return = Some (- 10)\<rparr>)]"
  "print_report [computed_AAA, computed_BBB]
     [(''Tech'', \<lparr>total = 10, count' = 1, avg_return = Some 10\<rparr>),
      (''Health'', \<lparr>total = - 10, count' = 1, avg_return = Some (- 10)\<rparr>)] =
     ([All_Stock_Details [computed_AAA, computed_BBB], Top_5_Stocks [computed_AAA, computed_BBB],
       Sector_Summary [(''Tech'', \<lparr>total = 10, count' = 1, avg_return = Some 10\<rparr>),
                       (''Health'', \<lparr>total = - 10, count' = 1, avg_return = Some (- 10)\<rparr>)],
       Best_Sector ''Tech'' (Some 10)], Inr ())"
  "export_csv str_ex ''20240101_120000'' can_write [computed_AAA, computed_BBB] =
       ([Data_Saved_To ''stock_report_20240101_120000.csv''],
        Some (''stock_report_20240101_120000.csv'', exported_A))"
proof -
  have pos: "0 < PriceStart stock_AAA" "0 < PriceStart stock_BBB"
    by (simp_all add: stock_AAA_def stock_BBB_def)
  show "compute_each [stock_AAA, stock_BBB] = Inr [computed_AAA, computed_BBB]"
    using pos by (simp add: compute_return_pct return_pct_ex computed_AAA_def computed_BBB_def)
  show "process_all [computed_AAA, computed_BBB] = Inr [computed_AAA, computed_BBB]"
    by (simp add: process_all_def sorted_py_def ex_defs)
  show "aggregrate_by_sector [computed_AAA, computed_BBB] =
     Inr [(''Tech'', \<lparr>total = 10, count' = 1, avg_return = Some 10\<rparr>),
          (''Health'', \<lparr>total = - 10, count' = 1, avg_return = Some (- 10)\<rparr>)]"
    by (simp add: aggregrate_by_sector_def ex_defs Let_def py_round_10)
  show "print_report [computed_AAA, computed_BBB]
     [(''Tech'', \<lparr>total = 10, count' = 1, avg_return = Some 10\<rparr>),
      (''Health'', \<lparr>total = - 10, count' = 1, avg_return = Some (- 10)\<rparr>)] =
     ([All_Stock_Details [computed_AAA, computed_BBB], Top_5_Stocks [computed_AAA, computed_BBB],
       Sector_Summary [(''Tech'', \<lparr>total = 10, count' = 1, avg_return = Some 10\<rparr>),
                       (''Health'', \<lparr>total = - 10, count' = 1, avg_return = Some (- 10)\<rparr>)],
       Best_Sector ''Tech'' (Some 10)], Inr ())"
    by (simp add: print_report_def Let_def computed_AAA_def computed_BBB_def)
  show "export_csv str_ex ''20240101_120000'' can_write [computed_AAA, computed_BBB] =
       ([Data_Saved_To ''stock_report_20240101_120000.csv''],
        Some (''stock_report_20240101_120000.csv'', exported_A))"
    by (simp add: export_csv_def exported_A_def str_ex_def ex_defs Let_def can_write_def)
qed

lemma strip_ex: "strip '' stocks.csv '' = ''stocks.csv''"
  by (simp add: strip_def is_space_def)

text \<open>
  Scenario A of the specification: two stocks are loaded and the row without a start
  price is skipped; the returns are 10 and -10; the ranking is AAA, BBB; each sector has
  one stock; the best sector is Tech; the file is written.
\<close>

lemma main_scenario_A:
  "main float_ex str_ex ''20240101_120000'' can_write (only_file lines_A) '' stocks.csv ''
    = \<lparr>printed =
         [Skipping_Missing_Prices (dict_row header_ex [''CCC'', ''Tech'', [], ''80'']),
          All_Stock_Details [computed_AAA, computed_BBB],
          Top_5_Stocks [computed_AAA, computed_BBB],
          Sector_Summary [(''Tech'', \<lparr>total = 10, count' = 1, avg_return = Some 10\<rparr>),
                          (''Health'', \<lparr>total = - 10, count' = 1, avg_return = Some (- 10)\<rparr>)],
          Best_Sector ''Tech'' (Some 10),
          Data_Saved_To ''stock_report_20240101_120000.csv''],
       ending = Finished,
       files = (only_file lines_A)(''stock_report_20240101_120000.csv'' := Contents exported_A)\<rparr>"
proof -
  have ne: "[stock_AAA, stock_BBB] \<noteq> []" by simp
  show ?thesis
    unfolding main_def strip_ex Let_def load_A
    by (simp only: prod.case sum.case ne if_False stages_A option.case append.simps)
qed

text \<open>Scenario B: the file does not exist.\<close>

lemma main_scenario_B:
  "main float_ex str_ex ''20240101_120000'' can_write no_file ''missing.csv''
    = \<lparr>printed = [File_Not_Found ''missing.csv'', No_Valid_Data], ending = Exit_0,
       files = no_file\<rparr>"
  by (simp add: main_def read_csv_safe_def no_file_def strip_def is_space_def)


theorem main_no_data_witness:
  "read_csv_safe float_ex no_file (strip ''missing.csv'')
     = ([File_Not_Found ''missing.csv''], Inr [])
   \<and> main float_ex str_ex ''20240101_120000'' can_write no_file ''missing.csv''
     = \<lparr>printed = [File_Not_Found ''missing.csv'', No_Valid_Data], ending = Exit_0,
        files = no_file\<rparr>"
proof -
  have l: "read_csv_safe float_ex no_file (strip ''missing.csv'')
     = ([File_Not_Found ''missing.csv''], Inr [])"
    by (simp add: read_csv_safe_def no_file_def strip_def is_space_def)
  from main_no_data[where float_str=str_ex and timestamp="''20240101_120000''"
        and writable=can_write, OF l] l
  show ?thesis by simp
qed

theorem main_finishes_witness:
  "read_csv_safe float_ex (only_file lines_A) (strip '' stocks.csv '') =
     ([Skipping_Missing_Prices (dict_row header_ex [''CCC'', ''Tech'', [], ''80''])],
      Inr [stock_AAA, stock_BBB])
   \<and> [stock_AAA, stock_BBB] \<noteq> []
   \<and> ending (main float_ex str_ex ''20240101_120000'' can_write (only_file lines_A)
               '' stocks.csv '') = Finished"
proof -
  have ne: "[stock_AAA, stock_BBB] \<noteq> []" by simp
  from main_finishes[where float=float_ex and line="'' stocks.csv ''" and float_str=str_ex
        and timestamp="''20240101_120000''" and writable=can_write, OF load_A ne]
    load_A[of "strip '' stocks.csv ''"]
  show ?thesis by simp
qed

end
